theory Spec2Isabelle
  imports Complex_Main "HOL-Library.Char_ord" "HOL-Library.List_Lexorder"
begin

text \<open>
  A shallow embedding of the priority queue service: the index manager with the keys of
  its store, the metrics collector, the facade over an arbitrary transport manager, and
  the mock transport of the examples. Conventions: counts are \<open>nat\<close>; priorities,
  \<open>maxMessages\<close> and thresholds are \<open>int\<close> (the numbers a caller can pass, without the
  non-integral ones); times are \<open>nat\<close>, and an operation that reads the clock takes its
  value as the argument \<open>now\<close>, one reading for the whole call; a thrown error is the
  \<open>Inl\<close> of a sum; an operation of the facade returns its result together with the
  state it leaves, also when it throws. One client at a time uses the store.
\<close>

section \<open>Configuration (src/src/config/index.ts)\<close>

text \<open>
  The defaults of \<open>DEFAULT_CONFIG\<close> that the modelled operations read.
\<close>

definition MAX_MESSAGES :: int where
  "MAX_MESSAGES = 10"

definition PRIORITY_LEVELS :: nat where
  "PRIORITY_LEVELS = 3"

definition STARVATION_PREVENTION_THRESHOLD :: int where
  "STARVATION_PREVENTION_THRESHOLD = 100"

text \<open>
  \<open>isValidPriority\<close>: \<open>Number.isInteger(priority) && priority >= 0 && priority < priorityLevels\<close>.
  Priorities are modelled as \<open>int\<close>, so the integrality test holds of every value of the
  model; the two comparisons are the source's.
\<close>

definition isValidPriority :: "int \<Rightarrow> nat \<Rightarrow> bool" where
  "isValidPriority priority levels \<longleftrightarrow> 0 \<le> priority \<and> priority < int levels"

section \<open>Errors\<close>

text \<open>
  Every \<open>throw\<close> of the source is a value of this type: the invalid-priority error of the
  facade (with the offending priority and the number of levels, as in its message), the
  "Redis client is not connected" error of the index, and the errors that the transport
  and the index store raise themselves.
\<close>

datatype error =
    InvalidPriority int nat
  | NotConnected
  | TransportError
  | BackendError

section \<open>The ordering index (class RedisManager, src/src/services/RedisManager.ts)\<close>

subsection \<open>Data\<close>

text \<open>
  \<open>MessageMetadata\<close> of the types module (the end of src/unnamed/part_003): the optional
  timestamps are options. The identifier
  field is called \<open>mid\<close> because \<open>id\<close> is the identity function of HOL.
\<close>

record MessageMetadata =
  mid :: string
  priority :: int
  sentAt :: nat
  firstReceivedAt :: "nat option"
  lastReceivedAt :: "nat option"
  receiveCount :: nat

text \<open>
  A sorted set of the store: its (member, score) entries in rank order, that is ascending
  by score and, among equal scores, ascending by member in the lexicographic order of
  the store. \<open>zAdd\<close> moves a member that is already present to the rank of its new score.
\<close>

type_synonym zset = "(string \<times> nat) list"

fun zInsert :: "string \<Rightarrow> nat \<Rightarrow> zset \<Rightarrow> zset" where
  "zInsert m s [] = [(m, s)]"
| "zInsert m s ((m', s') # zs) =
     (if s < s' \<or> (s = s' \<and> m < m') then (m, s) # (m', s') # zs
      else (m', s') # zInsert m s zs)"

definition zAdd :: "zset \<Rightarrow> nat \<Rightarrow> string \<Rightarrow> zset" where
  "zAdd zs score member = zInsert member score (filter (\<lambda>e. fst e \<noteq> member) zs)"

definition zRem :: "zset \<Rightarrow> string \<Rightarrow> zset" where
  "zRem zs member = filter (\<lambda>e. fst e \<noteq> member) zs"

definition zCard :: "zset \<Rightarrow> nat" where
  "zCard zs = length zs"

text \<open>
  \<open>zRange key start stop\<close>: the members of ranks \<open>start..stop\<close>, both inclusive; a negative
  rank counts from the end, and a stop beyond the last rank is the last rank.
\<close>

definition zRange :: "zset \<Rightarrow> int \<Rightarrow> int \<Rightarrow> string list" where
  "zRange zs start stop =
     (let n = int (length zs);
          s = (if start < 0 then max 0 (n + start) else start);
          e = (if stop < 0 then n + stop else min stop (n - 1))
      in if e < s then [] else map fst (take (nat (e - s + 1)) (drop (nat s) zs)))"

text \<open>
  The state of a \<open>RedisManager\<close>: its connection flag, its number of priority levels, and
  the keys of the store it reads and writes: one sorted set per priority-queue key
  (\<open>priority-queue:<priority>\<close>), one metadata record per \<open>message-metadata:<id>\<close> key
  (the JSON text is the record it encodes), and one number per
  \<open>metrics:latency:<priority>\<close> key.
\<close>

record RedisManager =
  connected :: bool
  priorityLevels :: nat
  queues :: "int \<Rightarrow> zset"
  metadata :: "string \<rightharpoonup> MessageMetadata"
  latencyKeys :: "int \<rightharpoonup> real"

subsection \<open>getNextMessages\<close>

text \<open>
  The first loop: \<open>queueSizes[priority] = zCard(key(priority))\<close> for every level.
\<close>

definition queueSizes :: "RedisManager \<Rightarrow> nat list" where
  "queueSizes r = map (\<lambda>p. zCard (queues r (int p))) [0..<priorityLevels r]"

text \<open>
  The second loop: is some level \<open>1..N-1\<close> deeper than the threshold?
\<close>

definition preventStarvation :: "nat list \<Rightarrow> nat \<Rightarrow> int \<Rightarrow> bool" where
  "preventStarvation sizes levels starvationThreshold =
     list_ex (\<lambda>p. starvationThreshold < int (sizes ! p)) [1..<levels]"

text \<open>
  \<open>Math.floor(messagesRemaining * (queueSizes[priority] / totalMessages))\<close>, in exact
  arithmetic. The source computes the quotient and the product in double precision; the
  loop below takes the allocation as a parameter, so that what is proved of the loop for
  every allocation holds of the rounded one too.
\<close>

definition proportionalAllocation :: "int \<Rightarrow> nat \<Rightarrow> nat \<Rightarrow> int" where
  "proportionalAllocation messagesRemaining queueSize totalMessages =
     (messagesRemaining * int queueSize) div int totalMessages"

text \<open>
  The number of identifiers to take from one class in the starvation-prevention branch:
  \<open>Math.min(Math.max(minAllocation, proportionalAllocation), queueSizes[priority],
  messagesRemaining - allocated)\<close>.
\<close>

definition toTakeStarvation :: "(int \<Rightarrow> nat \<Rightarrow> nat \<Rightarrow> int) \<Rightarrow> nat \<Rightarrow> nat \<Rightarrow> int \<Rightarrow> int \<Rightarrow> int" where
  "toTakeStarvation alloc queueSize totalMessages messagesRemaining allocated =
     (let minAllocation = 1;
          proportion = alloc messagesRemaining queueSize totalMessages
      in min (min (max minAllocation proportion) (int queueSize)) (messagesRemaining - allocated))"

text \<open>
  The loop of the starvation-prevention branch over the priorities still to visit, with
  \<open>result\<close> and \<open>allocated\<close> as they stand; \<open>break\<close> returns the result.
\<close>

fun starvationLoop ::
  "(int \<Rightarrow> nat \<Rightarrow> nat \<Rightarrow> int) \<Rightarrow> RedisManager \<Rightarrow> nat list \<Rightarrow> nat \<Rightarrow> int \<Rightarrow>
   nat list \<Rightarrow> string list \<Rightarrow> int \<Rightarrow> string list" where
  "starvationLoop alloc r sizes totalMessages messagesRemaining [] result allocated = result"
| "starvationLoop alloc r sizes totalMessages messagesRemaining (p # ps) result allocated =
     (if 0 < sizes ! p then
        (let toTake = toTakeStarvation alloc (sizes ! p) totalMessages messagesRemaining allocated
         in if 0 < toTake then
              (let messages = zRange (queues r (int p)) 0 (toTake - 1);
                   result' = result @ messages;
                   allocated' = allocated + int (length messages)
               in if messagesRemaining \<le> allocated' then result'
                  else starvationLoop alloc r sizes totalMessages messagesRemaining ps
                         result' allocated')
            else starvationLoop alloc r sizes totalMessages messagesRemaining ps
                   result allocated)
      else starvationLoop alloc r sizes totalMessages messagesRemaining ps result allocated)"

text \<open>
  The loop of the normal branch.
\<close>

fun normalLoop ::
  "RedisManager \<Rightarrow> nat list \<Rightarrow> int \<Rightarrow> nat list \<Rightarrow> string list \<Rightarrow> string list" where
  "normalLoop r sizes maxMessages [] result = result"
| "normalLoop r sizes maxMessages (p # ps) result =
     (if 0 < sizes ! p then
        (let toTake = min (maxMessages - int (length result)) (int (sizes ! p))
         in if 0 < toTake then
              (let messages = zRange (queues r (int p)) 0 (toTake - 1);
                   result' = result @ messages
               in if maxMessages \<le> int (length result') then result'
                  else normalLoop r sizes maxMessages ps result')
            else normalLoop r sizes maxMessages ps result)
      else normalLoop r sizes maxMessages ps result)"

text \<open>
  \<open>getNextMessages\<close> with the allocation function as a parameter, and with the one of the
  source. The depths are read and the ranges are fetched in one state of the store: no
  other client writes between the calls.
\<close>

definition getNextMessagesWith ::
  "(int \<Rightarrow> nat \<Rightarrow> nat \<Rightarrow> int) \<Rightarrow> RedisManager \<Rightarrow> int \<Rightarrow> int \<Rightarrow> error + string list" where
  "getNextMessagesWith alloc r maxMessages starvationThreshold =
     (if \<not> connected r then Inl NotConnected
      else
        (let sizes = queueSizes r in
         if preventStarvation sizes (priorityLevels r) starvationThreshold then
           (let totalMessages = sum_list sizes;
                messagesRemaining = min maxMessages (int totalMessages)
            in if 0 < messagesRemaining then
                 Inr (starvationLoop alloc r sizes totalMessages messagesRemaining
                        [0..<priorityLevels r] [] 0)
               else Inr [])
         else Inr (normalLoop r sizes maxMessages [0..<priorityLevels r] [])))"

definition getNextMessages :: "RedisManager \<Rightarrow> int \<Rightarrow> int \<Rightarrow> error + string list" where
  "getNextMessages = getNextMessagesWith proportionalAllocation"

subsection \<open>The other operations of the index\<close>

text \<open>
  \<open>x || d\<close> on an optional number: the default replaces an absent value and zero.
\<close>

definition orElse :: "'a::zero option \<Rightarrow> 'a \<Rightarrow> 'a" where
  "orElse x d = (case x of None \<Rightarrow> d | Some v \<Rightarrow> if v = 0 then d else v)"

text \<open>
  \<open>connect\<close> succeeds or fails as the store decides (the flag \<open>ok\<close>); \<open>disconnect\<close> quits
  only a connected client.
\<close>

definition connect :: "bool \<Rightarrow> RedisManager \<Rightarrow> error + RedisManager" where
  "connect ok r = (if ok then Inr (r\<lparr>connected := True\<rparr>) else Inl BackendError)"

definition disconnect :: "RedisManager \<Rightarrow> RedisManager" where
  "disconnect r = (if connected r then r\<lparr>connected := False\<rparr> else r)"

text \<open>
  Every operation below throws when the client is not connected, before it reads or
  writes a key. The commands of a connected store themselves succeed in this model.
  \<open>now\<close> is the value of \<open>Date.now()\<close>.
\<close>

definition addMessage ::
  "string \<Rightarrow> int \<Rightarrow> MessageMetadata \<Rightarrow> nat \<Rightarrow> RedisManager \<Rightarrow> error + RedisManager" where
  "addMessage messageId prio md now r =
     (if \<not> connected r then Inl NotConnected
      else Inr (r\<lparr> metadata := (metadata r)(messageId \<mapsto> md\<lparr>sentAt := now, receiveCount := 0\<rparr>),
                  queues := (queues r)(prio := zAdd (queues r prio) now messageId) \<rparr>))"

definition getMessageMetadata :: "string \<Rightarrow> RedisManager \<Rightarrow> error + MessageMetadata option" where
  "getMessageMetadata messageId r =
     (if \<not> connected r then Inl NotConnected else Inr (metadata r messageId))"

definition markMessageAsReceived :: "nat \<Rightarrow> string \<Rightarrow> RedisManager \<Rightarrow> error + RedisManager" where
  "markMessageAsReceived now messageId r =
     (if \<not> connected r then Inl NotConnected
      else
        (case getMessageMetadata messageId r of
           Inl e \<Rightarrow> Inl e
         | Inr None \<Rightarrow> Inr r
         | Inr (Some md) \<Rightarrow>
             Inr (r\<lparr> metadata := (metadata r)(messageId \<mapsto>
                        md\<lparr> lastReceivedAt := Some now,
                            firstReceivedAt := Some (orElse (firstReceivedAt md) now),
                            receiveCount := orElse (Some (receiveCount md)) 0 + 1 \<rparr>) \<rparr>)))"

definition removeMessage :: "string \<Rightarrow> int \<Rightarrow> RedisManager \<Rightarrow> error + RedisManager" where
  "removeMessage messageId prio r =
     (if \<not> connected r then Inl NotConnected
      else Inr (r\<lparr> queues := (queues r)(prio := zRem (queues r prio) messageId),
                  metadata := (metadata r)(messageId := None) \<rparr>))"

text \<open>
  The two queries return an object with the keys \<open>0..N-1\<close>: its entries in key order.
\<close>

definition getQueueDepthByPriority :: "RedisManager \<Rightarrow> error + (nat \<times> nat) list" where
  "getQueueDepthByPriority r =
     (if \<not> connected r then Inl NotConnected
      else Inr (map (\<lambda>p. (p, zCard (queues r (int p)))) [0..<priorityLevels r]))"

text \<open>
  \<open>Math.round\<close> rounds to the nearest integer, a half upwards. The latencies are exact
  reals here, doubles in the source.
\<close>

definition mathRound :: "real \<Rightarrow> int" where
  "mathRound x = \<lfloor>x + 1 / 2\<rfloor>"

definition storeProcessingLatency :: "int \<Rightarrow> real \<Rightarrow> RedisManager \<Rightarrow> error + RedisManager" where
  "storeProcessingLatency prio latency r =
     (if \<not> connected r then Inl NotConnected
      else
        (let currentLatency = (case latencyKeys r prio of None \<Rightarrow> 0 | Some v \<Rightarrow> v);
             newLatency = (if currentLatency = 0 then latency
                           else currentLatency * (9 / 10) + latency * (1 / 10))
         in Inr (r\<lparr> latencyKeys := (latencyKeys r)(prio \<mapsto> newLatency) \<rparr>)))"

definition getProcessingLatencyByPriority :: "RedisManager \<Rightarrow> error + (nat \<times> int) list" where
  "getProcessingLatencyByPriority r =
     (if \<not> connected r then Inl NotConnected
      else Inr (map (\<lambda>p. (p, case latencyKeys r (int p) of None \<Rightarrow> 0 | Some v \<Rightarrow> mathRound v))
                  [0..<priorityLevels r]))"

section \<open>The metrics collector (class MetricsCollector, src/src/utils/metrics.ts)\<close>

text \<open>
  The two tables are objects keyed by priority, the start times a map keyed by
  identifier. The constructor gives every key \<open>0..N-1\<close> the value zero, and no method
  writes another key.
\<close>

record MetricsCollector =
  queueDepthByPriority :: "int \<rightharpoonup> nat"
  processingLatencyByPriority :: "int \<rightharpoonup> int"
  messageProcessingStartTimes :: "string \<rightharpoonup> nat"
  metricsPriorityLevels :: nat

definition initializeMetrics :: "MetricsCollector \<Rightarrow> MetricsCollector" where
  "initializeMetrics m =
     fold (\<lambda>i m'. m'\<lparr> queueDepthByPriority := (queueDepthByPriority m')(int i \<mapsto> 0),
                      processingLatencyByPriority := (processingLatencyByPriority m')(int i \<mapsto> 0) \<rparr>)
       [0..<metricsPriorityLevels m] m"

definition newMetricsCollector :: "nat \<Rightarrow> MetricsCollector" where
  "newMetricsCollector levels =
     initializeMetrics \<lparr> queueDepthByPriority = Map.empty, processingLatencyByPriority = Map.empty,
                         messageProcessingStartTimes = Map.empty, metricsPriorityLevels = levels \<rparr>"

definition updateQueueDepth :: "int \<Rightarrow> nat \<Rightarrow> MetricsCollector \<Rightarrow> MetricsCollector" where
  "updateQueueDepth prio depth m =
     (if 0 \<le> prio \<and> prio < int (metricsPriorityLevels m)
      then m\<lparr> queueDepthByPriority := (queueDepthByPriority m)(prio \<mapsto> depth) \<rparr>
      else m)"

definition startMessageProcessing :: "string \<Rightarrow> nat \<Rightarrow> MetricsCollector \<Rightarrow> MetricsCollector" where
  "startMessageProcessing messageId now m =
     m\<lparr> messageProcessingStartTimes := (messageProcessingStartTimes m)(messageId \<mapsto> now) \<rparr>"

text \<open>
  The moving average \<open>Math.round(currentLatency * 0.9 + processingTime * 0.1)\<close>, exact.
  A start time of zero is falsy, as an absent one. For a key in range that the table
  lacks the source would compute with \<open>undefined\<close>; the constructor excludes it, and the
  model leaves the table as it is there.
\<close>

definition endMessageProcessing ::
  "string \<Rightarrow> int \<Rightarrow> nat \<Rightarrow> MetricsCollector \<Rightarrow> MetricsCollector" where
  "endMessageProcessing messageId prio now m =
     (case messageProcessingStartTimes m messageId of
        None \<Rightarrow> m
      | Some startTime \<Rightarrow>
          if startTime \<noteq> 0 \<and> 0 \<le> prio \<and> prio < int (metricsPriorityLevels m) then
            (let processingTime = int now - int startTime;
                 table = (case processingLatencyByPriority m prio of
                            None \<Rightarrow> processingLatencyByPriority m
                          | Some currentLatency \<Rightarrow>
                              (processingLatencyByPriority m)(prio \<mapsto>
                                 (if currentLatency = 0 then processingTime
                                  else mathRound (real_of_int currentLatency * (9 / 10)
                                                  + real_of_int processingTime * (1 / 10)))))
             in m\<lparr> processingLatencyByPriority := table,
                    messageProcessingStartTimes := (messageProcessingStartTimes m)(messageId := None) \<rparr>)
          else m)"

definition resetMetrics :: "MetricsCollector \<Rightarrow> MetricsCollector" where
  "resetMetrics m = (initializeMetrics m)\<lparr> messageProcessingStartTimes := Map.empty \<rparr>"

section \<open>The transport (class SQSManager, src/src/services/SQSManager.ts)\<close>

text \<open>
  The parameters and the messages of the types module (the end of src/unnamed/part_003)
  and the message of the transport. An absent optional field is \<open>None\<close>; an object of
  strings is the list of its entries.
\<close>

record SendMessageParams =
  p_body :: string
  p_priority :: int
  p_attributes :: "(string \<times> string) list option"
  p_messageGroupId :: "string option"
  p_messageDeduplicationId :: "string option"
  p_delaySeconds :: "int option"

record ReceiveMessageParams =
  rp_maxMessages :: "int option"
  rp_visibilityTimeout :: "int option"
  rp_waitTimeSeconds :: "int option"
  rp_includeAttributes :: "bool option"

record SQSMessage =
  MessageId :: "string option"
  Body :: "string option"
  ReceiptHandle :: "string option"
  MessageAttributes :: "(string \<times> string option) list option"

record PriorityMessage =
  m_id :: string
  m_body :: string
  m_priority :: int
  m_receiptHandle :: string
  m_sentTimestamp :: nat
  m_attributes :: "(string \<times> string) list"
  m_firstReceiveTimestamp :: "nat option"
  m_receiveCount :: nat

text \<open>
  The facade calls the methods of its \<open>sqsManager\<close>, whatever object that is: the manager
  of the remote queue or the mock of the examples. A manager is given here by what each
  method returns and what it does to the state \<open>'q\<close> of the queue behind it; the remote
  queue itself is outside this development.
\<close>

record 'q SQSManager =
  sqsSendMessage :: "SendMessageParams \<Rightarrow> 'q \<Rightarrow> (error + string) \<times> 'q"
  sqsReceiveMessages :: "ReceiveMessageParams \<Rightarrow> 'q \<Rightarrow> (error + SQSMessage list) \<times> 'q"
  sqsDeleteMessage :: "string \<Rightarrow> 'q \<Rightarrow> (error + unit) \<times> 'q"
  sqsChangeMessageVisibility :: "string \<Rightarrow> int \<Rightarrow> 'q \<Rightarrow> (error + unit) \<times> 'q"
  sqsPurgeQueue :: "'q \<Rightarrow> (error + unit) \<times> 'q"

section \<open>The facade (class PriorityQueueService, second part of src/src/services/RedisManager.ts)\<close>

text \<open>
  The fields of the service: its transport manager with the state of the queue behind
  it, its index manager, its metrics collector and its two settings.
\<close>

record 'q PriorityQueueService =
  sqsManager :: "'q SQSManager"
  sqsQueue :: 'q
  redisManager :: RedisManager
  metricsCollector :: MetricsCollector
  servicePriorityLevels :: nat
  starvationPreventionThreshold :: int

text \<open>
  The constructor, from the two options it reads itself, the transport manager and the
  keys that the store on the other end of the index connection holds.
\<close>

definition newRedisManager ::
  "nat \<Rightarrow> (int \<Rightarrow> zset) \<Rightarrow> (string \<rightharpoonup> MessageMetadata) \<Rightarrow> (int \<rightharpoonup> real) \<Rightarrow> RedisManager" where
  "newRedisManager levels qs mds lats =
     \<lparr> connected = False, priorityLevels = levels, queues = qs, metadata = mds,
       latencyKeys = lats \<rparr>"

definition newPriorityQueueService ::
  "nat option \<Rightarrow> int option \<Rightarrow> 'q SQSManager \<Rightarrow> 'q \<Rightarrow>
   (int \<Rightarrow> zset) \<Rightarrow> (string \<rightharpoonup> MessageMetadata) \<Rightarrow> (int \<rightharpoonup> real) \<Rightarrow> 'q PriorityQueueService" where
  "newPriorityQueueService optPriorityLevels optThreshold manager queue qs mds lats =
     (let levels = orElse optPriorityLevels PRIORITY_LEVELS
      in \<lparr> sqsManager = manager, sqsQueue = queue,
           redisManager = newRedisManager levels qs mds lats,
           metricsCollector = newMetricsCollector levels,
           servicePriorityLevels = levels,
           starvationPreventionThreshold = orElse optThreshold STARVATION_PREVENTION_THRESHOLD \<rparr>)"

definition serviceConnect :: "bool \<Rightarrow> 'q PriorityQueueService \<Rightarrow> (error + unit) \<times> 'q PriorityQueueService" where
  "serviceConnect ok s =
     (case connect ok (redisManager s) of
        Inl e \<Rightarrow> (Inl e, s)
      | Inr r \<Rightarrow> (Inr (), s\<lparr>redisManager := r\<rparr>))"

definition serviceDisconnect :: "'q PriorityQueueService \<Rightarrow> (error + unit) \<times> 'q PriorityQueueService" where
  "serviceDisconnect s = (Inr (), s\<lparr>redisManager := disconnect (redisManager s)\<rparr>)"

text \<open>
  The refresh of the depth metrics that ends a send, a receive and a delete: read the
  depths from the index and push each entry to the collector.
\<close>

definition refreshQueueDepth :: "RedisManager \<Rightarrow> MetricsCollector \<Rightarrow> error + MetricsCollector" where
  "refreshQueueDepth r m =
     (case getQueueDepthByPriority r of
        Inl e \<Rightarrow> Inl e
      | Inr queueDepth \<Rightarrow> Inr (fold (\<lambda>(p, depth). updateQueueDepth (int p) depth) queueDepth m))"

text \<open>
  \<open>sendMessage\<close>. The priority is validated before the \<open>try\<close> block. A failure after the
  transport has accepted the message leaves the transport as the call made it.
\<close>

definition sendMessage ::
  "nat \<Rightarrow> SendMessageParams \<Rightarrow> 'q PriorityQueueService \<Rightarrow> (error + string) \<times> 'q PriorityQueueService" where
  "sendMessage now params s =
     (if \<not> isValidPriority (p_priority params) (servicePriorityLevels s)
      then (Inl (InvalidPriority (p_priority params) (servicePriorityLevels s)), s)
      else
        (case sqsSendMessage (sqsManager s) params (sqsQueue s) of
           (Inl e, q') \<Rightarrow> (Inl e, s\<lparr>sqsQueue := q'\<rparr>)
         | (Inr messageId, q') \<Rightarrow>
             (let md = \<lparr> mid = messageId, priority = p_priority params, sentAt = now,
                         firstReceivedAt = None, lastReceivedAt = None, receiveCount = 0 \<rparr>
              in case addMessage messageId (p_priority params) md now (redisManager s) of
                   Inl e \<Rightarrow> (Inl e, s\<lparr>sqsQueue := q'\<rparr>)
                 | Inr r' \<Rightarrow>
                     (case refreshQueueDepth r' (metricsCollector s) of
                        Inl e \<Rightarrow> (Inl e, s\<lparr>sqsQueue := q', redisManager := r'\<rparr>)
                      | Inr m' \<Rightarrow>
                          (Inr messageId,
                           s\<lparr>sqsQueue := q', redisManager := r', metricsCollector := m'\<rparr>)))))"

text \<open>
  The attributes of a surfaced message: the entries of the transport message whose
  \<open>StringValue\<close> is truthy.
\<close>

definition parseAttributes :: "SQSMessage \<Rightarrow> (string \<times> string) list" where
  "parseAttributes sqsMessage =
     (case MessageAttributes sqsMessage of
        None \<Rightarrow> []
      | Some attrs \<Rightarrow>
          List.map_filter
            (\<lambda>(k, sv). case sv of None \<Rightarrow> None | Some v \<Rightarrow> if v = [] then None else Some (k, v))
            attrs)"

definition priorityMessage :: "SQSMessage \<Rightarrow> string \<Rightarrow> MessageMetadata \<Rightarrow> PriorityMessage" where
  "priorityMessage sqsMessage messageId md =
     \<lparr> m_id = messageId,
       m_body = (case Body sqsMessage of None \<Rightarrow> [] | Some b \<Rightarrow> b),
       m_priority = priority md,
       m_receiptHandle = (case ReceiptHandle sqsMessage of None \<Rightarrow> [] | Some h \<Rightarrow> h),
       m_sentTimestamp = sentAt md,
       m_attributes = parseAttributes sqsMessage,
       m_firstReceiveTimestamp = firstReceivedAt md,
       m_receiveCount = receiveCount md \<rparr>"

text \<open>
  One turn of the loop over the messages that the transport returned. A message without
  an identifier (absent or empty) and a message without a metadata record are skipped;
  the metadata attached to a surfaced message is the record as read before the message
  is marked received.
\<close>

definition receiveStep ::
  "nat \<Rightarrow> SQSMessage \<Rightarrow> PriorityMessage list \<times> RedisManager \<times> MetricsCollector \<Rightarrow>
   error + PriorityMessage list \<times> RedisManager \<times> MetricsCollector" where
  "receiveStep now sqsMessage st =
     (case st of (prioritizedMessages, r, m) \<Rightarrow>
        (case MessageId sqsMessage of
           None \<Rightarrow> Inr st
         | Some messageId \<Rightarrow>
             if messageId = [] then Inr st
             else
               (case getMessageMetadata messageId r of
                  Inl e \<Rightarrow> Inl e
                | Inr None \<Rightarrow> Inr st
                | Inr (Some md) \<Rightarrow>
                    (case markMessageAsReceived now messageId r of
                       Inl e \<Rightarrow> Inl e
                     | Inr r' \<Rightarrow>
                         Inr (prioritizedMessages @ [priorityMessage sqsMessage messageId md],
                              r', startMessageProcessing messageId now m)))))"

text \<open>
  The loop: an error of a turn ends it, with the marks of the turns before it made.
\<close>

fun receiveLoop ::
  "nat \<Rightarrow> SQSMessage list \<Rightarrow> PriorityMessage list \<times> RedisManager \<times> MetricsCollector \<Rightarrow>
   error option \<times> PriorityMessage list \<times> RedisManager \<times> MetricsCollector" where
  "receiveLoop now [] st = (None, st)"
| "receiveLoop now (sqsMessage # rest) st =
     (case receiveStep now sqsMessage st of
        Inl e \<Rightarrow> (Some e, st)
      | Inr st' \<Rightarrow> receiveLoop now rest st')"

text \<open>
  \<open>receiveMessages\<close>: \<open>params?.maxMessages || MAX_MESSAGES\<close>, the request
  \<open>{...params, maxMessages}\<close> sent to the transport, and the method. The candidate
  identifiers are read only by the test for the empty list, before the transport is
  asked. An error inside the loop is rethrown.
\<close>

definition receiveMaxMessages :: "ReceiveMessageParams option \<Rightarrow> int" where
  "receiveMaxMessages params =
     orElse (case params of None \<Rightarrow> None | Some ps \<Rightarrow> rp_maxMessages ps) MAX_MESSAGES"

definition receiveRequest :: "ReceiveMessageParams option \<Rightarrow> ReceiveMessageParams" where
  "receiveRequest params =
     (case params of
        None \<Rightarrow> \<lparr> rp_maxMessages = Some (receiveMaxMessages params), rp_visibilityTimeout = None,
                  rp_waitTimeSeconds = None, rp_includeAttributes = None \<rparr>
      | Some ps \<Rightarrow> ps\<lparr>rp_maxMessages := Some (receiveMaxMessages params)\<rparr>)"

definition receiveMessages ::
  "nat \<Rightarrow> ReceiveMessageParams option \<Rightarrow> 'q PriorityQueueService \<Rightarrow>
   (error + PriorityMessage list) \<times> 'q PriorityQueueService" where
  "receiveMessages now params s =
     (case getNextMessages (redisManager s) (receiveMaxMessages params)
             (starvationPreventionThreshold s) of
        Inl e \<Rightarrow> (Inl e, s)
      | Inr messageIds \<Rightarrow>
          if messageIds = [] then (Inr [], s)
          else
            (case sqsReceiveMessages (sqsManager s) (receiveRequest params) (sqsQueue s) of
               (Inl e, q') \<Rightarrow> (Inl e, s\<lparr>sqsQueue := q'\<rparr>)
             | (Inr sqsMessages, q') \<Rightarrow>
                 if sqsMessages = [] then (Inr [], s\<lparr>sqsQueue := q'\<rparr>)
                 else
                   (case receiveLoop now sqsMessages ([], redisManager s, metricsCollector s) of
                      (Some e, prioritizedMessages, r', m') \<Rightarrow>
                        (Inl e, s\<lparr>sqsQueue := q', redisManager := r', metricsCollector := m'\<rparr>)
                    | (None, prioritizedMessages, r', m') \<Rightarrow>
                        (case refreshQueueDepth r' m' of
                           Inl e \<Rightarrow>
                             (Inl e, s\<lparr>sqsQueue := q', redisManager := r', metricsCollector := m'\<rparr>)
                         | Inr m'' \<Rightarrow>
                             (Inr prioritizedMessages,
                              s\<lparr>sqsQueue := q', redisManager := r', metricsCollector := m''\<rparr>)))))"

text \<open>
  \<open>deleteMessage\<close>: the index and the collector are touched only when a truthy identifier
  and a priority are given.
\<close>

definition deleteMessage ::
  "nat \<Rightarrow> string \<Rightarrow> string option \<Rightarrow> int option \<Rightarrow> 'q PriorityQueueService \<Rightarrow>
   (error + unit) \<times> 'q PriorityQueueService" where
  "deleteMessage now receiptHandle optMessageId optPriority s =
     (case sqsDeleteMessage (sqsManager s) receiptHandle (sqsQueue s) of
        (Inl e, q') \<Rightarrow> (Inl e, s\<lparr>sqsQueue := q'\<rparr>)
      | (Inr u, q') \<Rightarrow>
          (case (optMessageId, optPriority) of
             (Some messageId, Some prio) \<Rightarrow>
               if messageId = [] then (Inr (), s\<lparr>sqsQueue := q'\<rparr>)
               else
                 (case removeMessage messageId prio (redisManager s) of
                    Inl e \<Rightarrow> (Inl e, s\<lparr>sqsQueue := q'\<rparr>)
                  | Inr r' \<Rightarrow>
                      (let m' = endMessageProcessing messageId prio now (metricsCollector s)
                       in case refreshQueueDepth r' m' of
                            Inl e \<Rightarrow>
                              (Inl e, s\<lparr>sqsQueue := q', redisManager := r', metricsCollector := m'\<rparr>)
                          | Inr m'' \<Rightarrow>
                              (Inr (), s\<lparr>sqsQueue := q', redisManager := r',
                                         metricsCollector := m''\<rparr>)))
           | _ \<Rightarrow> (Inr (), s\<lparr>sqsQueue := q'\<rparr>)))"

definition changeMessageVisibility ::
  "string \<Rightarrow> int \<Rightarrow> 'q PriorityQueueService \<Rightarrow> (error + unit) \<times> 'q PriorityQueueService" where
  "changeMessageVisibility receiptHandle timeout s =
     (case sqsChangeMessageVisibility (sqsManager s) receiptHandle timeout (sqsQueue s) of
        (res, q') \<Rightarrow> (res, s\<lparr>sqsQueue := q'\<rparr>))"

definition serviceGetQueueDepthByPriority :: "'q PriorityQueueService \<Rightarrow> error + (nat \<times> nat) list" where
  "serviceGetQueueDepthByPriority s = getQueueDepthByPriority (redisManager s)"

definition serviceGetProcessingLatencyByPriority ::
  "'q PriorityQueueService \<Rightarrow> error + (nat \<times> int) list" where
  "serviceGetProcessingLatencyByPriority s = getProcessingLatencyByPriority (redisManager s)"

text \<open>
  \<open>purgeQueue\<close>: purge the transport, then reset the collector. The index is not touched.
\<close>

definition purgeQueue :: "'q PriorityQueueService \<Rightarrow> (error + unit) \<times> 'q PriorityQueueService" where
  "purgeQueue s =
     (case sqsPurgeQueue (sqsManager s) (sqsQueue s) of
        (Inl e, q') \<Rightarrow> (Inl e, s\<lparr>sqsQueue := q'\<rparr>)
      | (Inr u, q') \<Rightarrow>
          (Inr (), s\<lparr>sqsQueue := q', metricsCollector := resetMetrics (metricsCollector s)\<rparr>))"

section \<open>The mock transport of the examples (class MockSQSManager, second part of src/src/config/index.ts)\<close>

text \<open>
  Decimal numerals, for the identifiers and the priority attribute of the mock.
\<close>

fun showNat :: "nat \<Rightarrow> string" where
  "showNat n =
     (if n < 10 then [''0123456789'' ! n]
      else showNat (n div 10) @ [''0123456789'' ! (n mod 10)])"

definition showInt :: "int \<Rightarrow> string" where
  "showInt i = (if i < 0 then ''-'' @ showNat (nat (- i)) else showNat (nat i))"

text \<open>
  The mock keeps its messages in a map, which iterates in insertion order, and numbers
  them from 1. \<open>mapSet\<close> is the map's \<open>set\<close>: a present key keeps its place.
\<close>

record MockSQSManager =
  messages :: "(string \<times> SQSMessage) list"
  messageIdCounter :: nat

definition mapSet :: "'k \<Rightarrow> 'v \<Rightarrow> ('k \<times> 'v) list \<Rightarrow> ('k \<times> 'v) list" where
  "mapSet k v kvs =
     (if k \<in> fst ` set kvs then map (\<lambda>(k', v'). if k' = k then (k, v) else (k', v')) kvs
      else kvs @ [(k, v)])"

definition newMockSQSManager :: MockSQSManager where
  "newMockSQSManager = \<lparr> messages = [], messageIdCounter = 1 \<rparr>"

definition mockSendMessage ::
  "SendMessageParams \<Rightarrow> MockSQSManager \<Rightarrow> (error + string) \<times> MockSQSManager" where
  "mockSendMessage params q =
     (let messageId = ''mock-msg-'' @ showNat (messageIdCounter q);
          custom = (case p_attributes params of
                      None \<Rightarrow> []
                    | Some attrs \<Rightarrow> map (\<lambda>(k, v). (k, Some v)) attrs);
          message = \<lparr> MessageId = Some messageId, Body = Some (p_body params),
                      ReceiptHandle = Some (''receipt-'' @ messageId),
                      MessageAttributes =
                        Some (fold (\<lambda>(k, v). mapSet k v) custom
                                [(''Priority'', Some (showInt (p_priority params)))]) \<rparr>
      in (Inr messageId,
          q\<lparr> messages := mapSet messageId message (messages q),
             messageIdCounter := messageIdCounter q + 1 \<rparr>))"

text \<open>
  The mock returns all its messages, whatever the request, and never fails.
\<close>

definition mockReceiveMessages ::
  "ReceiveMessageParams \<Rightarrow> MockSQSManager \<Rightarrow> (error + SQSMessage list) \<times> MockSQSManager" where
  "mockReceiveMessages params q = (Inr (map snd (messages q)), q)"

fun removeReceipt :: "string \<Rightarrow> (string \<times> SQSMessage) list \<Rightarrow> (string \<times> SQSMessage) list" where
  "removeReceipt receiptHandle [] = []"
| "removeReceipt receiptHandle ((k, message) # rest) =
     (if ReceiptHandle message = Some receiptHandle then rest
      else (k, message) # removeReceipt receiptHandle rest)"

definition mockDeleteMessage ::
  "string \<Rightarrow> MockSQSManager \<Rightarrow> (error + unit) \<times> MockSQSManager" where
  "mockDeleteMessage receiptHandle q =
     (Inr (), q\<lparr> messages := removeReceipt receiptHandle (messages q) \<rparr>)"

definition mockPurgeQueue :: "MockSQSManager \<Rightarrow> (error + unit) \<times> MockSQSManager" where
  "mockPurgeQueue q = (Inr (), q\<lparr> messages := [] \<rparr>)"

text \<open>
  The mock does not override \<open>changeMessageVisibility\<close>: the inherited method asks a remote
  queue that the mock has none of, and fails.
\<close>

definition mockSQSManager :: "MockSQSManager SQSManager" where
  "mockSQSManager =
     \<lparr> sqsSendMessage = mockSendMessage,
       sqsReceiveMessages = mockReceiveMessages,
       sqsDeleteMessage = mockDeleteMessage,
       sqsChangeMessageVisibility = (\<lambda>receiptHandle timeout q. (Inl TransportError, q)),
       sqsPurgeQueue = mockPurgeQueue \<rparr>"

text \<open>
  The service of the example: three levels, the default threshold, the mock transport
  and a store without keys, connected.
\<close>

definition mockService :: "MockSQSManager PriorityQueueService" where
  "mockService =
     snd (serviceConnect True
       (newPriorityQueueService (Some 3) None mockSQSManager newMockSQSManager
          (\<lambda>k. []) Map.empty Map.empty))"

text \<open>
  Parameters for the examples: a send with a body and a priority and nothing else, a
  receive with \<open>maxMessages\<close> and nothing else.
\<close>

definition sendParams :: "string \<Rightarrow> int \<Rightarrow> SendMessageParams" where
  "sendParams b p =
     \<lparr> p_body = b, p_priority = p, p_attributes = None, p_messageGroupId = None,
       p_messageDeduplicationId = None, p_delaySeconds = None \<rparr>"

definition receiveParams :: "int \<Rightarrow> ReceiveMessageParams option" where
  "receiveParams n =
     Some \<lparr> rp_maxMessages = Some n, rp_visibilityTimeout = None, rp_waitTimeSeconds = None,
            rp_includeAttributes = None \<rparr>"

section \<open>Runs of the facade\<close>

text \<open>
  A call of a public operation of the facade with its arguments; calls that read the
  clock carry its value, and \<open>Connect\<close> carries whether the store accepts the connection.
\<close>

datatype facadeCall =
    Connect bool
  | Disconnect
  | SendMessage nat SendMessageParams
  | ReceiveMessages nat "ReceiveMessageParams option"
  | DeleteMessage nat string "string option" "int option"
  | ChangeMessageVisibility string int
  | GetQueueDepthByPriority
  | GetProcessingLatencyByPriority
  | PurgeQueue

text \<open>
  The state after one call and after a sequence of calls, whether they succeed or throw.
\<close>

fun afterCall :: "facadeCall \<Rightarrow> 'q PriorityQueueService \<Rightarrow> 'q PriorityQueueService" where
  "afterCall (Connect ok) s = snd (serviceConnect ok s)"
| "afterCall Disconnect s = snd (serviceDisconnect s)"
| "afterCall (SendMessage now params) s = snd (sendMessage now params s)"
| "afterCall (ReceiveMessages now params) s = snd (receiveMessages now params s)"
| "afterCall (DeleteMessage now receiptHandle optMessageId optPriority) s =
     snd (deleteMessage now receiptHandle optMessageId optPriority s)"
| "afterCall (ChangeMessageVisibility receiptHandle timeout) s =
     snd (changeMessageVisibility receiptHandle timeout s)"
| "afterCall GetQueueDepthByPriority s = s"
| "afterCall GetProcessingLatencyByPriority s = s"
| "afterCall PurgeQueue s = snd (purgeQueue s)"

definition afterCalls :: "facadeCall list \<Rightarrow> 'q PriorityQueueService \<Rightarrow> 'q PriorityQueueService" where
  "afterCalls cs s = fold afterCall cs s"

section \<open>The selection as the specification words it\<close>

text \<open>
  The identifiers of one class in rank order, oldest first.
\<close>

definition classQueue :: "RedisManager \<Rightarrow> nat \<Rightarrow> string list" where
  "classQueue r p = map fst (queues r (int p))"

text \<open>
  The greedy selection in the words of the specification, not of the source: from each
  class in turn, take up to the remaining budget of its oldest identifiers, and pass
  what is left of the budget to the classes after it.
\<close>

fun greedyByClass :: "string list list \<Rightarrow> nat \<Rightarrow> string list" where
  "greedyByClass [] remaining = []"
| "greedyByClass (q # qs) remaining =
     (let taken = take remaining q in taken @ greedyByClass qs (remaining - length taken))"

text \<open>
  A store for the examples: three levels, two identifiers in class 0, one in class 1 and
  one in class 2.
\<close>

definition exampleIndex :: RedisManager where
  "exampleIndex =
     \<lparr> connected = True, priorityLevels = 3,
       queues = (\<lambda>k. if k = 0 then [(''a'', 1), (''b'', 2)]
                    else if k = 1 then [(''c'', 3)]
                    else if k = 2 then [(''d'', 4)] else []),
       metadata = Map.empty, latencyKeys = Map.empty \<rparr>"

text \<open>
  The identifiers that a receive surfaces, in the words of the specification: of the
  messages that the transport returned, in its order, those that carry an identifier for
  which the index holds a metadata record.
\<close>

definition surfacedIds :: "RedisManager \<Rightarrow> SQSMessage list \<Rightarrow> string list" where
  "surfacedIds r sqsMessages =
     List.map_filter
       (\<lambda>sqsMessage. case MessageId sqsMessage of
            None \<Rightarrow> None
          | Some messageId \<Rightarrow>
              if messageId \<noteq> [] \<and> metadata r messageId \<noteq> None then Some messageId else None)
       sqsMessages"

text \<open>
  Successive delivery attempts of one message: \<open>markMessageAsReceived\<close> once for each
  reading of the clock.
\<close>

fun markRepeatedly :: "nat list \<Rightarrow> string \<Rightarrow> RedisManager \<Rightarrow> error + RedisManager" where
  "markRepeatedly [] messageId r = Inr r"
| "markRepeatedly (now # clock) messageId r =
     (case markMessageAsReceived now messageId r of
        Inl e \<Rightarrow> Inl e
      | Inr r' \<Rightarrow> markRepeatedly clock messageId r')"

section \<open>States and runs for the examples\<close>

text \<open>
  The mock transport with a \<open>sendMessage\<close> that the queue rejects.
\<close>

definition failingSend :: "MockSQSManager SQSManager" where
  "failingSend = mockSQSManager\<lparr> sqsSendMessage := (\<lambda>params q. (Inl TransportError, q)) \<rparr>"

definition failingService :: "MockSQSManager PriorityQueueService" where
  "failingService = mockService\<lparr> sqsManager := failingSend \<rparr>"

text \<open>
  An index that tracks the identifier \<open>a\<close>, never received, and the same index after one
  delivery of \<open>a\<close> at time 7.
\<close>

definition exampleMetadata :: MessageMetadata where
  "exampleMetadata =
     \<lparr> mid = ''a'', priority = 0, sentAt = 1, firstReceivedAt = None, lastReceivedAt = None,
       receiveCount = 0 \<rparr>"

definition trackedIndex :: RedisManager where
  "trackedIndex = exampleIndex\<lparr> metadata := [''a'' \<mapsto> exampleMetadata] \<rparr>"

definition receivedIndex :: RedisManager where
  "receivedIndex =
     exampleIndex\<lparr> metadata := [''a'' \<mapsto> exampleMetadata\<lparr> firstReceivedAt := Some 7,
                          lastReceivedAt := Some 7, receiveCount := 1 \<rparr>] \<rparr>"

text \<open>
  An index in starvation-prevention mode at the default threshold: one identifier in
  class 0, 101 in class 1 and one in class 2.
\<close>

definition starvedIndex :: RedisManager where
  "starvedIndex =
     \<lparr> connected = True, priorityLevels = 3,
       queues = (\<lambda>k. if k = 0 then [(''h'', 1)]
                    else if k = 1 then map (\<lambda>n. (''m'' @ showNat n, n)) [2..<103]
                    else if k = 2 then [(''l'', 103)] else []),
       metadata = Map.empty, latencyKeys = Map.empty \<rparr>"

text \<open>
  A run that sends one message while the index is disconnected (the transport accepts
  it, the index does not register it) and a second one after reconnecting.
\<close>

definition untrackedRun :: "facadeCall list" where
  "untrackedRun =
     [Disconnect, SendMessage 1 (sendParams ''untracked'' 0), Connect True,
      SendMessage 2 (sendParams ''tracked'' 1)]"

text \<open>
  A run that sends one message at time 1, receives it at time 2 and deletes it at time
  502.
\<close>

definition exampleRun :: "facadeCall list" where
  "exampleRun =
     [SendMessage 1 (sendParams ''job'' 0), ReceiveMessages 2 (receiveParams 10),
      DeleteMessage 502 ''receipt-mock-msg-1'' (Some ''mock-msg-1'') (Some 0)]"

section \<open>Properties of getNextMessages\<close>

lemma zRange_prefix: "0 < t \<Longrightarrow> zRange zs 0 (t - 1) = map fst (take (nat t) zs)"
proof -
  assume t: "0 < t"
  have n: "Suc (nat (t - 1)) = nat t" using t by simp
  show ?thesis
  proof (cases "zs = []")
    case True
    then show ?thesis by (simp add: zRange_def)
  next
    case False
    then have len: "0 < length zs" by simp
    show ?thesis
    proof (cases "t - 1 < int (length zs)")
      case True
      then show ?thesis using t len n by (simp add: zRange_def Let_def min_def)
    next
      case False
      then have "length zs \<le> nat t" by linarith
      then show ?thesis using t len False by (simp add: zRange_def Let_def min_def)
    qed
  qed
qed

lemma greedyByClass_take_concat: "greedyByClass qs n = take n (concat qs)"
  by (induction qs arbitrary: n) (auto simp: Let_def min_def)

lemma greedyByClass_zero: "greedyByClass qs 0 = []"
  by (simp add: greedyByClass_take_concat)


lemma normalLoop_greedyByClass:
  assumes "\<forall>p\<in>set ps. sizes ! p = length (queues r (int p))"
  shows "normalLoop r sizes maxMessages ps result =
           result @ greedyByClass (map (classQueue r) ps) (nat (maxMessages - int (length result)))"
  using assms
proof (induction ps arbitrary: result)
  case Nil
  then show ?case by simp
next
  case (Cons p ps)
  let ?q = "queues r (int p)"
  let ?k = "nat (maxMessages - int (length result))"
  let ?rest = "map (classQueue r) ps"
  have sz: "sizes ! p = length ?q" using Cons.prems by simp
  have cq: "classQueue r p = map fst ?q" by (simp add: classQueue_def)
  have IH: "\<And>res. normalLoop r sizes maxMessages ps res =
           res @ greedyByClass ?rest (nat (maxMessages - int (length res)))"
    using Cons by simp
  have rhs: "greedyByClass (map (classQueue r) (p # ps)) ?k
       = take ?k (map fst ?q) @ greedyByClass ?rest (?k - length (take ?k (map fst ?q)))"
    by (simp add: Let_def cq)
  show ?case
  proof (cases "0 < length ?q \<and> 0 < maxMessages - int (length result)")
    case False
    then have "normalLoop r sizes maxMessages (p # ps) result = normalLoop r sizes maxMessages ps result"
      by (auto simp: sz Let_def)
    moreover have "greedyByClass (map (classQueue r) (p # ps)) ?k = greedyByClass ?rest ?k"
      using False unfolding rhs by (auto simp: greedyByClass_zero)
    ultimately show ?thesis by (simp only: IH)
  next
    case True
    define t where "t = min (maxMessages - int (length result)) (int (length ?q))"
    have tt: "0 < t" using True by (simp add: t_def)
    have msgs: "zRange ?q 0 (t - 1) = take ?k (map fst ?q)"
      unfolding zRange_prefix[OF tt] using True by (simp add: t_def take_map min_def)
    define res' where "res' = result @ take ?k (map fst ?q)"
    have step: "normalLoop r sizes maxMessages (p # ps) result =
       (if maxMessages \<le> int (length res') then res' else normalLoop r sizes maxMessages ps res')"
      using True tt msgs unfolding res'_def t_def by (simp add: sz Let_def del: length_append)
    show ?thesis
    proof (cases "length ?q < ?k")
      case True
      then have l: "length res' = length result + length ?q" "\<not> maxMessages \<le> int (length res')"
        by (simp_all add: res'_def)
      have k: "nat (maxMessages - int (length res')) = ?k - length ?q" using l by simp
      have "normalLoop r sizes maxMessages (p # ps) result = res' @ greedyByClass ?rest (?k - length ?q)"
        unfolding step using l(2) by (simp only: IH k if_False)
      moreover have "take ?k (map fst ?q) = map fst ?q" "length (take ?k (map fst ?q)) = length ?q"
        using True by simp_all
      ultimately show ?thesis unfolding rhs by (simp add: res'_def)
    next
      case False
      then have l: "maxMessages \<le> int (length res')"
        by (simp add: res'_def)
      show ?thesis unfolding step rhs using l False by (simp add: greedyByClass_zero res'_def)
    qed
  qed
qed

lemma queueSizes_nth:
  "p < priorityLevels r \<Longrightarrow> queueSizes r ! p = length (queues r (int p))"
  by (simp add: queueSizes_def zCard_def)

lemma preventStarvation_iff:
  "preventStarvation (queueSizes r) (priorityLevels r) starvationThreshold \<longleftrightarrow>
     (\<exists>p\<in>{1..<priorityLevels r}. starvationThreshold < int (zCard (queues r (int p))))"
  by (auto simp: preventStarvation_def list_ex_iff queueSizes_nth zCard_def)

text \<open>
  C7. In normal mode, that is when no class of index \<open>1..N-1\<close> is deeper than the
  starvation threshold, \<open>getNextMessages\<close> returns the greedy selection by ascending class
  index: up to the remaining budget of the oldest identifiers of class 0, then of class 1,
  and so on, until \<open>maxMessages\<close> identifiers are collected.
\<close>

theorem getNextMessages_normal_mode_greedy:
  assumes "connected r"
    and "\<forall>p\<in>{1..<priorityLevels r}. int (zCard (queues r (int p))) \<le> starvationThreshold"
  shows "getNextMessages r maxMessages starvationThreshold =
           Inr (greedyByClass (map (classQueue r) [0..<priorityLevels r]) (nat maxMessages))"
proof -
  have "\<not> preventStarvation (queueSizes r) (priorityLevels r) starvationThreshold"
    using assms(2) by (auto simp: preventStarvation_iff)
  moreover have "\<forall>p\<in>set [0..<priorityLevels r]. queueSizes r ! p = length (queues r (int p))"
    by (simp add: queueSizes_nth)
  ultimately show ?thesis
    using assms(1)
    by (simp add: getNextMessages_def getNextMessagesWith_def normalLoop_greedyByClass)
qed

theorem getNextMessages_normal_mode_greedy_witness:
  "connected exampleIndex
   \<and> priorityLevels exampleIndex = 3
   \<and> int (zCard (queues exampleIndex 1)) \<le> 100
   \<and> int (zCard (queues exampleIndex 2)) \<le> 100
   \<and> getNextMessages exampleIndex 3 100 = Inr [''a'', ''b'', ''c'']"
  using getNextMessages_normal_mode_greedy [of exampleIndex 100 3]
  by (simp add: exampleIndex_def zCard_def classQueue_def atLeastLessThan_upt upt_conv_Cons)

lemma zRange_length_le:
  "0 < t \<Longrightarrow> int (length (zRange zs 0 (t - 1))) \<le> t"
  by (simp add: zRange_prefix)

lemma zRange_length_le_card:
  "0 < t \<Longrightarrow> length (zRange zs 0 (t - 1)) \<le> length zs"
  by (simp add: zRange_prefix)

lemma toTakeStarvation_le:
  "toTakeStarvation alloc queueSize totalMessages messagesRemaining allocated \<le> messagesRemaining - allocated"
  "toTakeStarvation alloc queueSize totalMessages messagesRemaining allocated \<le> int queueSize"
  by (simp_all add: toTakeStarvation_def Let_def)

lemma starvationLoop_le_target:
  "allocated \<le> messagesRemaining \<Longrightarrow>
   int (length (starvationLoop alloc r sizes totalMessages messagesRemaining ps result allocated))
     \<le> int (length result) + (messagesRemaining - allocated)"
proof (induction ps arbitrary: result allocated)
  case Nil
  then show ?case by simp
next
  case (Cons p ps)
  define t where "t = toTakeStarvation alloc (sizes ! p) totalMessages messagesRemaining allocated"
  define msgs where "msgs = zRange (queues r (int p)) 0 (t - 1)"
  have t1: "t \<le> messagesRemaining - allocated" unfolding t_def by (rule toTakeStarvation_le)
  show ?case
  proof (cases "0 < sizes ! p \<and> 0 < t")
    case False
    then have "starvationLoop alloc r sizes totalMessages messagesRemaining (p # ps) result allocated
        = starvationLoop alloc r sizes totalMessages messagesRemaining ps result allocated"
      by (auto simp: t_def Let_def)
    then show ?thesis using Cons.IH[OF Cons.prems] by simp
  next
    case True
    then have len: "int (length msgs) \<le> t" unfolding msgs_def by (simp add: zRange_length_le)
    have step: "starvationLoop alloc r sizes totalMessages messagesRemaining (p # ps) result allocated
        = (if messagesRemaining \<le> allocated + int (length msgs) then result @ msgs
           else starvationLoop alloc r sizes totalMessages messagesRemaining ps (result @ msgs)
                  (allocated + int (length msgs)))"
      using True by (simp add: t_def msgs_def Let_def)
    show ?thesis
    proof (cases "messagesRemaining \<le> allocated + int (length msgs)")
      case True
      then show ?thesis unfolding step using len t1 by simp
    next
      case False
      then have "allocated + int (length msgs) \<le> messagesRemaining" by simp
      from Cons.IH[OF this, of "result @ msgs"] show ?thesis unfolding step using False by simp
    qed
  qed
qed

lemma starvationLoop_le_backlog:
  "length (starvationLoop alloc r sizes totalMessages messagesRemaining ps result allocated)
     \<le> length result + sum_list (map (\<lambda>p. sizes ! p) ps)"
proof (induction ps arbitrary: result allocated)
  case Nil
  then show ?case by simp
next
  case (Cons p ps)
  define t where "t = toTakeStarvation alloc (sizes ! p) totalMessages messagesRemaining allocated"
  define msgs where "msgs = zRange (queues r (int p)) 0 (t - 1)"
  have t1: "t \<le> int (sizes ! p)" unfolding t_def by (rule toTakeStarvation_le)
  show ?case
  proof (cases "0 < sizes ! p \<and> 0 < t")
    case False
    then have "starvationLoop alloc r sizes totalMessages messagesRemaining (p # ps) result allocated
        = starvationLoop alloc r sizes totalMessages messagesRemaining ps result allocated"
      by (auto simp: t_def Let_def)
    then show ?thesis using Cons.IH[of result allocated] by simp
  next
    case True
    then have "int (length msgs) \<le> t" unfolding msgs_def by (simp add: zRange_length_le)
    then have len: "length msgs \<le> sizes ! p" using t1 by linarith
    have step: "starvationLoop alloc r sizes totalMessages messagesRemaining (p # ps) result allocated
        = (if messagesRemaining \<le> allocated + int (length msgs) then result @ msgs
           else starvationLoop alloc r sizes totalMessages messagesRemaining ps (result @ msgs)
                  (allocated + int (length msgs)))"
      using True by (simp add: t_def msgs_def Let_def)
    show ?thesis
    proof (cases "messagesRemaining \<le> allocated + int (length msgs)")
      case True
      then show ?thesis unfolding step using len by simp
    next
      case False
      from Cons.IH[of "result @ msgs" "allocated + int (length msgs)"] show ?thesis
        unfolding step using False len by simp
    qed
  qed
qed

lemma length_greedyByClass:
  "length (greedyByClass qs n) = min n (sum_list (map length qs))"
  by (simp add: greedyByClass_take_concat length_concat)

lemma sum_list_queueSizes:
  "sum_list (map length (map (classQueue r) [0..<priorityLevels r])) = sum_list (queueSizes r)"
  by (simp add: queueSizes_def classQueue_def zCard_def comp_def)

lemma map_nth_queueSizes:
  "map (\<lambda>p. queueSizes r ! p) [0..<priorityLevels r] = queueSizes r"
  using map_nth[of "queueSizes r"] by (simp add: queueSizes_def)

lemma normalLoop_queueSizes:
  "normalLoop r (queueSizes r) maxMessages [0..<priorityLevels r] [] =
     greedyByClass (map (classQueue r) [0..<priorityLevels r]) (nat maxMessages)"
  by (simp add: normalLoop_greedyByClass queueSizes_nth)

text \<open>
  C8. Every call of \<open>getNextMessages\<close> on a connected index returns, in normal and in
  starvation-prevention mode, a list of at most \<open>maxMessages\<close> identifiers (none when
  \<open>maxMessages\<close> is not positive) and of at most as many identifiers as the class queues
  held when their depths were read. This holds whatever the proportional allocation
  computes, so of \<open>getNextMessages\<close>, which is \<open>getNextMessagesWith proportionalAllocation\<close>,
  and of the same loop with the allocation rounded in double precision.
\<close>

theorem getNextMessages_bounded:
  assumes "connected r"
  shows "\<exists>ids. getNextMessagesWith alloc r maxMessages starvationThreshold = Inr ids
           \<and> int (length ids) \<le> max 0 maxMessages
           \<and> length ids \<le> sum_list (queueSizes r)"
proof (cases "preventStarvation (queueSizes r) (priorityLevels r) starvationThreshold")
  case False
  then have eq: "getNextMessagesWith alloc r maxMessages starvationThreshold =
      Inr (greedyByClass (map (classQueue r) [0..<priorityLevels r]) (nat maxMessages))"
    using assms by (simp add: getNextMessagesWith_def normalLoop_queueSizes)
  show ?thesis unfolding eq
    by (auto simp: length_greedyByClass sum_list_queueSizes [simplified] greedyByClass_zero)
next
  case True
  define mr where "mr = min maxMessages (int (sum_list (queueSizes r)))"
  show ?thesis
  proof (cases "0 < mr")
    case False
    then have "getNextMessagesWith alloc r maxMessages starvationThreshold = Inr []"
      unfolding getNextMessagesWith_def Let_def mr_def[symmetric] using assms True by simp
    moreover have "maxMessages \<le> 0 \<or> sum_list (queueSizes r) = 0"
      using False unfolding mr_def by linarith
    ultimately show ?thesis by auto
  next
    case pos: True
    define ids where "ids = starvationLoop alloc r (queueSizes r) (sum_list (queueSizes r)) mr
                        [0..<priorityLevels r] [] 0"
    have eq: "getNextMessagesWith alloc r maxMessages starvationThreshold = Inr ids"
      unfolding getNextMessagesWith_def Let_def mr_def[symmetric] ids_def using assms True pos by simp
    have "int (length ids) \<le> mr"
      using starvationLoop_le_target[of 0 mr alloc r "queueSizes r" "sum_list (queueSizes r)" "[0..<priorityLevels r]" "[]"] pos
      by (simp add: ids_def)
    moreover have "length ids \<le> sum_list (queueSizes r)"
      using starvationLoop_le_backlog[of alloc r "queueSizes r" "sum_list (queueSizes r)" mr "[0..<priorityLevels r]" "[]" 0]
      by (simp add: ids_def map_nth_queueSizes)
    ultimately show ?thesis unfolding eq using pos by (auto simp: mr_def)
  qed
qed

theorem getNextMessages_bounded_witness:
  "connected exampleIndex
   \<and> (\<exists>ids. getNextMessagesWith proportionalAllocation exampleIndex 3 0 = Inr ids
          \<and> int (length ids) \<le> max 0 3
          \<and> length ids \<le> sum_list (queueSizes exampleIndex))"
  using getNextMessages_bounded [of exampleIndex proportionalAllocation 3 0]
  by (simp add: exampleIndex_def)

text \<open>
  C2, at a failing input. With depths 1, 101 and 1 and the threshold 100 the index is in
  starvation-prevention mode, and a request for 10 identifiers returns the one of class
  0 and nine of class 1: the minimum of one given to class 0 and the share of class 1
  use up the target before class 2 is visited, so the non-empty class 2 gets none.
\<close>

theorem getNextMessages_starved_class_example:
  "queueSizes starvedIndex = [1, 101, 1]
   \<and> preventStarvation (queueSizes starvedIndex) 3 100
   \<and> getNextMessages starvedIndex 10 100
       = Inr [''h'', ''m2'', ''m3'', ''m4'', ''m5'', ''m6'', ''m7'', ''m8'', ''m9'', ''m10'']"
  by code_simp

section \<open>Properties of the index operations\<close>

text \<open>
  Rank order is age order: \<open>zAdd\<close> keeps a sorted set ascending by score, and in such a
  set no entry of a prefix is younger than an entry after it. So the prefix that
  \<open>zRange\<close> returns holds the oldest identifiers of the class.
\<close>

lemma set_zInsert: "set (zInsert m s zs) = insert (m, s) (set zs)"
  by (induction zs) (auto split: if_splits)

lemma zInsert_sorted:
  "sorted (map snd zs) \<Longrightarrow> sorted (map snd (zInsert m s zs))"
  by (induction zs) (fastforce simp: set_zInsert)+

lemma zAdd_sorted:
  "sorted (map snd zs) \<Longrightarrow> sorted (map snd (zAdd zs score member))"
  unfolding zAdd_def by (intro zInsert_sorted) (simp add: sorted_filter)

lemma prefix_oldest:
  assumes "sorted (map snd zs)" and "x \<in> set (take n zs)" and "y \<in> set (drop n zs)"
  shows "snd x \<le> snd y"
proof -
  have "sorted (map snd (take n zs) @ map snd (drop n zs))"
    using assms(1) by (simp flip: map_append)
  then show ?thesis using assms(2,3) by (auto simp: sorted_append)
qed

lemma markMessageAsReceived_present:
  assumes "connected r" and "metadata r messageId = Some md"
  shows "\<exists>md'. markMessageAsReceived now messageId r
                  = Inr (r\<lparr>metadata := (metadata r)(messageId \<mapsto> md')\<rparr>)
             \<and> receiveCount md' = receiveCount md + 1
             \<and> lastReceivedAt md' = Some now
             \<and> (firstReceivedAt md = None \<longrightarrow> firstReceivedAt md' = Some now)
             \<and> (\<forall>t. firstReceivedAt md = Some t \<and> t \<noteq> 0 \<longrightarrow> firstReceivedAt md' = Some t)
             \<and> mid md' = mid md \<and> priority md' = priority md \<and> sentAt md' = sentAt md"
  using assms
  by (auto simp: markMessageAsReceived_def getMessageMetadata_def orElse_def)

lemma markMessageAsReceived_absent:
  assumes "connected r" and "metadata r messageId = None"
  shows "markMessageAsReceived now messageId r = Inr r"
  using assms by (simp add: markMessageAsReceived_def getMessageMetadata_def)

lemma markRepeatedly_count:
  "connected r \<Longrightarrow> metadata r messageId = Some md \<Longrightarrow>
   \<exists>r' md'. markRepeatedly clock messageId r = Inr r' \<and> metadata r' messageId = Some md'
      \<and> receiveCount md' = receiveCount md + length clock"
proof (induction clock arbitrary: r md)
  case Nil
  then show ?case by simp
next
  case (Cons now clock)
  from markMessageAsReceived_present[OF Cons.prems, of now]
  obtain md1 where m: "markMessageAsReceived now messageId r = Inr (r\<lparr>metadata := (metadata r)(messageId \<mapsto> md1)\<rparr>)"
    and c: "receiveCount md1 = receiveCount md + 1" by blast
  let ?r1 = "r\<lparr>metadata := (metadata r)(messageId \<mapsto> md1)\<rparr>"
  have "connected ?r1" "metadata ?r1 messageId = Some md1" using Cons.prems by simp_all
  from Cons.IH[OF this] obtain r' md' where "markRepeatedly clock messageId ?r1 = Inr r'"
     "metadata r' messageId = Some md'" "receiveCount md' = receiveCount md1 + length clock" by blast
  then show ?case using m c by simp
qed

text \<open>
  C9. On a connected index, \<open>markMessageAsReceived\<close> of an identifier without a metadata
  record changes nothing and raises nothing. Of an identifier with a record it rewrites
  that record only: \<open>receiveCount\<close> is one more, \<open>lastReceivedAt\<close> is the current time,
  \<open>firstReceivedAt\<close> is the current time if it was unset and is kept if it was set (to a
  time other than zero, which the source cannot tell from unset), and identifier,
  priority and \<open>sentAt\<close> are kept. After any number of successive delivery attempts
  \<open>receiveCount\<close> has grown by that number.
\<close>

theorem markMessageAsReceived_counts:
  assumes "connected r"
  shows "(metadata r messageId = None \<longrightarrow> markMessageAsReceived now messageId r = Inr r)
       \<and> (\<forall>md. metadata r messageId = Some md \<longrightarrow>
            (\<exists>md'. markMessageAsReceived now messageId r
                      = Inr (r\<lparr>metadata := (metadata r)(messageId \<mapsto> md')\<rparr>)
                 \<and> receiveCount md' = receiveCount md + 1
                 \<and> lastReceivedAt md' = Some now
                 \<and> (firstReceivedAt md = None \<longrightarrow> firstReceivedAt md' = Some now)
                 \<and> (\<forall>t. firstReceivedAt md = Some t \<and> t \<noteq> 0 \<longrightarrow> firstReceivedAt md' = Some t)
                 \<and> mid md' = mid md \<and> priority md' = priority md \<and> sentAt md' = sentAt md)
          \<and> (\<exists>r' md'. markRepeatedly clock messageId r = Inr r' \<and> metadata r' messageId = Some md'
                 \<and> receiveCount md' = receiveCount md + length clock))"
  using markMessageAsReceived_absent[OF assms] markMessageAsReceived_present[OF assms]
    markRepeatedly_count[OF assms]
  by blast

theorem markMessageAsReceived_counts_witness:
  "connected trackedIndex
   \<and> metadata trackedIndex ''zz'' = None
   \<and> markMessageAsReceived 7 ''zz'' trackedIndex = Inr trackedIndex
   \<and> metadata trackedIndex ''a'' = Some exampleMetadata
   \<and> firstReceivedAt exampleMetadata = None
   \<and> (\<exists>md'. markMessageAsReceived 7 ''a'' trackedIndex
               = Inr (trackedIndex\<lparr>metadata := (metadata trackedIndex)(''a'' \<mapsto> md')\<rparr>)
          \<and> receiveCount md' = 1 \<and> lastReceivedAt md' = Some 7 \<and> firstReceivedAt md' = Some 7)
   \<and> (\<exists>r' md'. markRepeatedly [7, 9] ''a'' trackedIndex = Inr r' \<and> metadata r' ''a'' = Some md'
          \<and> receiveCount md' = 2)
   \<and> connected receivedIndex
   \<and> (\<exists>md'. markMessageAsReceived 9 ''a'' receivedIndex
               = Inr (receivedIndex\<lparr>metadata := (metadata receivedIndex)(''a'' \<mapsto> md')\<rparr>)
          \<and> receiveCount md' = 2 \<and> lastReceivedAt md' = Some 9 \<and> firstReceivedAt md' = Some 7)"
proof -
  have c: "connected trackedIndex" by (simp add: trackedIndex_def exampleIndex_def)
  have z: "metadata trackedIndex ''zz'' = None" by (simp add: trackedIndex_def)
  have a: "metadata trackedIndex ''a'' = Some exampleMetadata" by (simp add: trackedIndex_def)
  have f: "firstReceivedAt exampleMetadata = None" "receiveCount exampleMetadata = 0"
    by (simp_all add: exampleMetadata_def)
  have n: "markMessageAsReceived 7 ''zz'' trackedIndex = Inr trackedIndex"
    using markMessageAsReceived_counts [OF c, of "''zz''" 7 "[]"] z by simp
  have first: "(\<exists>md'. markMessageAsReceived 7 ''a'' trackedIndex
               = Inr (trackedIndex\<lparr>metadata := (metadata trackedIndex)(''a'' \<mapsto> md')\<rparr>)
          \<and> receiveCount md' = 1 \<and> lastReceivedAt md' = Some 7 \<and> firstReceivedAt md' = Some 7)
   \<and> (\<exists>r' md'. markRepeatedly [7, 9] ''a'' trackedIndex = Inr r' \<and> metadata r' ''a'' = Some md'
          \<and> receiveCount md' = 2)"
    using markMessageAsReceived_counts [OF c, of "''a''" 7 "[7, 9]"] a f
    by (auto simp del: markRepeatedly.simps)
  have c': "connected receivedIndex" by (simp add: receivedIndex_def exampleIndex_def)
  have a': "metadata receivedIndex ''a''
              = Some (exampleMetadata\<lparr> firstReceivedAt := Some 7, lastReceivedAt := Some 7,
                                       receiveCount := 1 \<rparr>)"
    by (simp add: receivedIndex_def)
  have second: "\<exists>md'. markMessageAsReceived 9 ''a'' receivedIndex
               = Inr (receivedIndex\<lparr>metadata := (metadata receivedIndex)(''a'' \<mapsto> md')\<rparr>)
          \<and> receiveCount md' = 2 \<and> lastReceivedAt md' = Some 9 \<and> firstReceivedAt md' = Some 7"
    using markMessageAsReceived_counts [OF c', of "''a''" 9 "[]"] a'
    by (auto simp del: markRepeatedly.simps)
  from first second show ?thesis using c z a f n c' by simp
qed

section \<open>Properties of the facade\<close>

text \<open>
  C6. \<open>sendMessage\<close> with a priority outside \<open>[0, priorityLevels)\<close> fails with the
  invalid-priority error and returns the service as it was: transport, index and
  collector are untouched, whatever the transport would have answered. With a valid
  priority and a transport that fails the submission, the call fails with the error of
  the transport and the index is as it was: no entry is created.
\<close>

theorem sendMessage_failures:
  "(\<not> isValidPriority (p_priority params) (servicePriorityLevels s) \<longrightarrow>
      sendMessage now params s
        = (Inl (InvalidPriority (p_priority params) (servicePriorityLevels s)), s))
   \<and> (isValidPriority (p_priority params) (servicePriorityLevels s)
        \<and> fst (sqsSendMessage (sqsManager s) params (sqsQueue s)) = Inl e \<longrightarrow>
      fst (sendMessage now params s) = Inl e
      \<and> redisManager (snd (sendMessage now params s)) = redisManager s
      \<and> metricsCollector (snd (sendMessage now params s)) = metricsCollector s)"
  by (auto simp: sendMessage_def split: prod.splits sum.splits)

theorem sendMessage_failures_witness:
  "\<not> isValidPriority (p_priority (sendParams ''x'' 5)) (servicePriorityLevels mockService)
   \<and> sendMessage 1 (sendParams ''x'' 5) mockService = (Inl (InvalidPriority 5 3), mockService)
   \<and> isValidPriority (p_priority (sendParams ''x'' 1)) (servicePriorityLevels failingService)
   \<and> fst (sqsSendMessage (sqsManager failingService) (sendParams ''x'' 1)
            (sqsQueue failingService)) = Inl TransportError
   \<and> fst (sendMessage 1 (sendParams ''x'' 1) failingService) = Inl TransportError
   \<and> redisManager (snd (sendMessage 1 (sendParams ''x'' 1) failingService))
       = redisManager failingService"
proof -
  have lv: "servicePriorityLevels mockService = 3" "servicePriorityLevels failingService = 3"
    by (simp_all add: failingService_def mockService_def serviceConnect_def connect_def
        newPriorityQueueService_def newRedisManager_def orElse_def Let_def)
  have a: "\<not> isValidPriority (p_priority (sendParams ''x'' 5)) (servicePriorityLevels mockService)"
    by (simp add: lv isValidPriority_def sendParams_def)
  have b: "isValidPriority (p_priority (sendParams ''x'' 1)) (servicePriorityLevels failingService)"
    by (simp add: lv isValidPriority_def sendParams_def)
  have c: "fst (sqsSendMessage (sqsManager failingService) (sendParams ''x'' 1)
             (sqsQueue failingService)) = Inl TransportError"
    by (simp add: failingService_def failingSend_def)
  show ?thesis
    using sendMessage_failures [where params = "sendParams ''x'' 5" and s = mockService and now = 1]
          sendMessage_failures [where params = "sendParams ''x'' 1" and now = 1
            and s = failingService and e = TransportError]
          a b c
    by (simp add: lv sendParams_def)
qed

lemma markMessageAsReceived_keeps:
  assumes "markMessageAsReceived now messageId r = Inr r'"
  shows "connected r' = connected r" "priorityLevels r' = priorityLevels r" "queues r' = queues r"
    "latencyKeys r' = latencyKeys r" "\<And>i. (metadata r' i = None) = (metadata r i = None)"
  using assms
  by (auto simp: markMessageAsReceived_def getMessageMetadata_def
           split: if_splits option.splits)

lemma receiveStep_keeps:
  assumes "receiveStep now sqsMessage (acc, r, m) = Inr (acc', r', m')"
  shows "connected r' = connected r" "priorityLevels r' = priorityLevels r" "queues r' = queues r"
    "latencyKeys r' = latencyKeys r" "\<And>i. (metadata r' i = None) = (metadata r i = None)"
  using assms markMessageAsReceived_keeps
  by (auto simp: receiveStep_def split: option.splits if_splits sum.splits)

lemma receiveLoop_keeps:
  assumes "receiveLoop now sqsMessages (acc, r, m) = (res, acc', r', m')"
  shows "connected r' = connected r \<and> priorityLevels r' = priorityLevels r \<and> queues r' = queues r
    \<and> latencyKeys r' = latencyKeys r \<and> (\<forall>i. (metadata r' i = None) = (metadata r i = None))"
  using assms
proof (induction sqsMessages arbitrary: acc r m)
  case Nil
  then show ?case by simp
next
  case (Cons sqsMessage rest)
  show ?case
  proof (cases "receiveStep now sqsMessage (acc, r, m)")
    case (Inl e)
    then show ?thesis using Cons.prems by simp
  next
    case (Inr st)
    obtain acc1 r1 m1 where st: "st = (acc1, r1, m1)" by (cases st) auto
    from Cons.prems Inr st have "receiveLoop now rest (acc1, r1, m1) = (res, acc', r', m')" by simp
    from Cons.IH[OF this] receiveStep_keeps[OF Inr[unfolded st]] show ?thesis by simp
  qed
qed

lemma receiveStep_connected:
  assumes "connected r"
  shows "\<exists>acc' r' m'. receiveStep now sqsMessage (acc, r, m) = Inr (acc', r', m')
          \<and> map m_id acc' = map m_id acc @ surfacedIds r [sqsMessage]"
  using assms
  by (auto simp: receiveStep_def surfacedIds_def List.map_filter_simps getMessageMetadata_def
        markMessageAsReceived_def priorityMessage_def split: option.splits)

lemma surfacedIds_cong:
  assumes "\<And>i. (metadata r' i = None) = (metadata r i = None)"
  shows "surfacedIds r' ms = surfacedIds r ms"
  by (induction ms) (auto simp: surfacedIds_def assms split: option.splits)

lemma surfacedIds_Cons:
  "surfacedIds r (x # xs) = surfacedIds r [x] @ surfacedIds r xs"
  by (simp add: surfacedIds_def List.map_filter_simps split: option.splits)

lemma receiveLoop_connected:
  assumes "connected r"
  shows "\<exists>acc' r' m'. receiveLoop now sqsMessages (acc, r, m) = (None, acc', r', m')
          \<and> map m_id acc' = map m_id acc @ surfacedIds r sqsMessages"
  using assms
proof (induction sqsMessages arbitrary: acc r m)
  case Nil
  then show ?case by (simp add: surfacedIds_def List.map_filter_simps)
next
  case (Cons sqsMessage rest)
  from receiveStep_connected[OF Cons.prems, of now sqsMessage acc m]
  obtain acc1 r1 m1 where st: "receiveStep now sqsMessage (acc, r, m) = Inr (acc1, r1, m1)"
    and ids: "map m_id acc1 = map m_id acc @ surfacedIds r [sqsMessage]" by blast
  note k = receiveStep_keeps[OF st]
  have c1: "connected r1" using k(1) Cons.prems by simp
  from Cons.IH[OF c1, of acc1 m1] obtain acc' r' m' where
    l: "receiveLoop now rest (acc1, r1, m1) = (None, acc', r', m')"
    and ids': "map m_id acc' = map m_id acc1 @ surfacedIds r1 rest" by blast
  have "surfacedIds r1 rest = surfacedIds r rest" using k(5) by (rule surfacedIds_cong)
  then show ?case using st l ids ids' surfacedIds_Cons[of r sqsMessage rest] by simp
qed

lemma getNextMessages_connected:
  "getNextMessages r n t = Inr ids \<Longrightarrow> connected r"
  by (auto simp: getNextMessages_def getNextMessagesWith_def split: if_splits)

lemma refreshQueueDepth_connected:
  "connected r \<Longrightarrow> \<exists>m'. refreshQueueDepth r m = Inr m'"
  by (simp add: refreshQueueDepth_def getQueueDepthByPriority_def)

lemma set_surfacedIds:
  "i \<in> set (surfacedIds r ms) \<longleftrightarrow>
     (\<exists>sqsMessage\<in>set ms. MessageId sqsMessage = Some i \<and> i \<noteq> [] \<and> metadata r i \<noteq> None)"
  by (induction ms) (auto simp: surfacedIds_def List.map_filter_simps split: option.splits if_splits)

text \<open>
  C5. When the index puts forward at least one candidate and the transport answers the
  receive with a batch, \<open>receiveMessages\<close> succeeds, and the identifiers it returns are, in
  the order of the transport, those of the batch that have a metadata record in the
  index: a returned message that carries an identifier is in the result if and only if
  that identifier has a record, and a message without one is left out without an error.
\<close>

theorem receiveMessages_surfaces_tracked:
  assumes "getNextMessages (redisManager s) (receiveMaxMessages params)
             (starvationPreventionThreshold s) = Inr messageIds"
    and "messageIds \<noteq> []"
    and "fst (sqsReceiveMessages (sqsManager s) (receiveRequest params) (sqsQueue s)) = Inr sqsMessages"
  shows "\<exists>out. fst (receiveMessages now params s) = Inr out
           \<and> map m_id out = surfacedIds (redisManager s) sqsMessages
           \<and> (\<forall>sqsMessage\<in>set sqsMessages. \<forall>i. MessageId sqsMessage = Some i \<and> i \<noteq> [] \<longrightarrow>
                 (i \<in> set (map m_id out) \<longleftrightarrow> metadata (redisManager s) i \<noteq> None))"
proof -
  have c: "connected (redisManager s)" using assms(1) by (rule getNextMessages_connected)
  obtain q' where tr: "sqsReceiveMessages (sqsManager s) (receiveRequest params) (sqsQueue s) = (Inr sqsMessages, q')"
    using assms(3) by (cases "sqsReceiveMessages (sqsManager s) (receiveRequest params) (sqsQueue s)") auto
  from receiveLoop_connected[OF c, of now sqsMessages "[]" "metricsCollector s"]
  obtain out r' m' where l: "receiveLoop now sqsMessages ([], redisManager s, metricsCollector s) = (None, out, r', m')"
    and ids: "map m_id out = surfacedIds (redisManager s) sqsMessages" by auto
  have "connected r'" using receiveLoop_keeps[OF l] c by simp
  from refreshQueueDepth_connected[OF this, of m'] obtain m'' where rf: "refreshQueueDepth r' m' = Inr m''" by blast
  have res: "fst (receiveMessages now params s) = Inr out"
  proof (cases "sqsMessages = []")
    case True
    then have "out = []" using l by simp
    then show ?thesis using assms(1,2) tr True by (simp add: receiveMessages_def)
  next
    case False
    then show ?thesis using assms(1,2) tr l rf by (simp add: receiveMessages_def)
  qed
  have "\<forall>sqsMessage\<in>set sqsMessages. \<forall>i. MessageId sqsMessage = Some i \<and> i \<noteq> [] \<longrightarrow>
                 (i \<in> set (map m_id out) \<longleftrightarrow> metadata (redisManager s) i \<noteq> None)"
    unfolding ids set_surfacedIds by auto
  with res ids show ?thesis by blast
qed

theorem receiveMessages_surfaces_tracked_witness:
  "getNextMessages (redisManager (afterCalls untrackedRun mockService))
       (receiveMaxMessages (receiveParams 10))
       (starvationPreventionThreshold (afterCalls untrackedRun mockService)) = Inr [''mock-msg-2'']
   \<and> map_sum id (map MessageId)
         (fst (sqsReceiveMessages (sqsManager (afterCalls untrackedRun mockService))
                 (receiveRequest (receiveParams 10)) (sqsQueue (afterCalls untrackedRun mockService))))
       = Inr [Some ''mock-msg-1'', Some ''mock-msg-2'']
   \<and> metadata (redisManager (afterCalls untrackedRun mockService)) ''mock-msg-1'' = None
   \<and> (\<exists>out. fst (receiveMessages 3 (receiveParams 10) (afterCalls untrackedRun mockService)) = Inr out
          \<and> map m_id out = [''mock-msg-2''])"
proof -
  let ?s = "afterCalls untrackedRun mockService"
  have a: "getNextMessages (redisManager ?s) (receiveMaxMessages (receiveParams 10))
             (starvationPreventionThreshold ?s) = Inr [''mock-msg-2'']"
    by code_simp
  have b: "fst (sqsReceiveMessages (sqsManager ?s) (receiveRequest (receiveParams 10)) (sqsQueue ?s))
             = Inr (map snd (messages (sqsQueue ?s)))"
    by code_simp
  have c: "map MessageId (map snd (messages (sqsQueue ?s))) = [Some ''mock-msg-1'', Some ''mock-msg-2'']"
    by code_simp
  have d: "surfacedIds (redisManager ?s) (map snd (messages (sqsQueue ?s))) = [''mock-msg-2'']"
    by code_simp
  have e: "metadata (redisManager ?s) ''mock-msg-1'' = None"
    by code_simp
  from receiveMessages_surfaces_tracked [OF a _ b, of 3]
  obtain out where "fst (receiveMessages 3 (receiveParams 10) ?s) = Inr out"
    and "map m_id out = surfacedIds (redisManager ?s) (map snd (messages (sqsQueue ?s)))"
    by auto
  then show ?thesis using a b c d e by simp
qed

text \<open>
  C1, at a failing input. With the mock transport, a message of class 1 is sent and then
  a message of class 0, both below the threshold. \<open>receiveMessages\<close> returns them in the
  order of the transport: the message of class 1 before the message of class 0.
\<close>

theorem receiveMessages_transport_order_example:
  "map_sum id (map (\<lambda>m. (m_id m, m_priority m)))
     (fst (receiveMessages 3 (receiveParams 10)
        (afterCalls [SendMessage 1 (sendParams ''low'' 1), SendMessage 2 (sendParams ''high'' 0)]
           mockService)))
   = Inr [(''mock-msg-1'', 1), (''mock-msg-2'', 0)]"
  by code_simp

text \<open>
  C3, at a failing input. Two messages of class 0 are sent and one message is asked
  for. The only candidate of the call is the first identifier; the transport returns
  both messages, and \<open>receiveMessages\<close> returns both: the second is not a candidate.
\<close>

theorem receiveMessages_outside_candidates_example:
  "getNextMessages
       (redisManager (afterCalls [SendMessage 1 (sendParams ''first'' 0),
                                  SendMessage 2 (sendParams ''second'' 0)] mockService))
       (receiveMaxMessages (receiveParams 1)) 100
     = Inr [''mock-msg-1'']
   \<and> map_sum id (map m_id)
       (fst (receiveMessages 3 (receiveParams 1)
          (afterCalls [SendMessage 1 (sendParams ''first'' 0),
                       SendMessage 2 (sendParams ''second'' 0)] mockService)))
     = Inr [''mock-msg-1'', ''mock-msg-2'']"
  by code_simp

text \<open>
  C4, at a failing input. One message of class 0 is sent and the queue is purged. The
  purge succeeds, and the depth query then returns 1 for class 0: \<open>purgeQueue\<close> empties
  the transport and resets the collector, and the query reads the index.
\<close>

theorem purgeQueue_keeps_index_depths_example:
  "fst (purgeQueue (afterCalls [SendMessage 1 (sendParams ''job'' 0)] mockService)) = Inr ()
   \<and> serviceGetQueueDepthByPriority
        (afterCalls [SendMessage 1 (sendParams ''job'' 0), PurgeQueue] mockService)
     = Inr [(0, 1), (1, 0), (2, 0)]"
  by code_simp

lemma connect_keeps:
  "connect ok r = Inr r' \<Longrightarrow> latencyKeys r' = latencyKeys r \<and> priorityLevels r' = priorityLevels r"
  by (auto simp: connect_def split: if_splits)

lemma disconnect_keeps:
  "latencyKeys (disconnect r) = latencyKeys r \<and> priorityLevels (disconnect r) = priorityLevels r"
  by (simp add: disconnect_def)

lemma addMessage_keeps:
  "addMessage messageId prio md now r = Inr r' \<Longrightarrow>
     latencyKeys r' = latencyKeys r \<and> priorityLevels r' = priorityLevels r"
  by (auto simp: addMessage_def split: if_splits)

lemma removeMessage_keeps:
  "removeMessage messageId prio r = Inr r' \<Longrightarrow>
     latencyKeys r' = latencyKeys r \<and> priorityLevels r' = priorityLevels r"
  by (auto simp: removeMessage_def split: if_splits)

lemma serviceConnect_keeps:
  "latencyKeys (redisManager (snd (serviceConnect ok s))) = latencyKeys (redisManager s)
   \<and> priorityLevels (redisManager (snd (serviceConnect ok s))) = priorityLevels (redisManager s)"
  by (auto simp: serviceConnect_def dest: connect_keeps split: sum.splits)

lemma serviceDisconnect_keeps:
  "latencyKeys (redisManager (snd (serviceDisconnect s))) = latencyKeys (redisManager s)
   \<and> priorityLevels (redisManager (snd (serviceDisconnect s))) = priorityLevels (redisManager s)"
  by (simp add: serviceDisconnect_def disconnect_keeps)

lemma sendMessage_keeps:
  "latencyKeys (redisManager (snd (sendMessage now params s))) = latencyKeys (redisManager s)
   \<and> priorityLevels (redisManager (snd (sendMessage now params s))) = priorityLevels (redisManager s)"
  by (auto simp: sendMessage_def Let_def dest: addMessage_keeps split: sum.splits prod.splits)

lemma receiveMessages_keeps:
  "latencyKeys (redisManager (snd (receiveMessages now params s))) = latencyKeys (redisManager s)
   \<and> priorityLevels (redisManager (snd (receiveMessages now params s))) = priorityLevels (redisManager s)"
  by (auto simp: receiveMessages_def dest: receiveLoop_keeps split: sum.splits prod.splits option.splits)

lemma deleteMessage_keeps:
  "latencyKeys (redisManager (snd (deleteMessage now receiptHandle optMessageId optPriority s)))
     = latencyKeys (redisManager s)
   \<and> priorityLevels (redisManager (snd (deleteMessage now receiptHandle optMessageId optPriority s)))
     = priorityLevels (redisManager s)"
  by (auto simp: deleteMessage_def Let_def dest: removeMessage_keeps
           split: sum.splits prod.splits option.splits)

lemma changeMessageVisibility_keeps:
  "redisManager (snd (changeMessageVisibility receiptHandle timeout s)) = redisManager s"
  by (simp add: changeMessageVisibility_def split: prod.splits)

lemma purgeQueue_keeps:
  "redisManager (snd (purgeQueue s)) = redisManager s"
  by (simp add: purgeQueue_def split: prod.splits sum.splits)

lemma afterCall_keeps:
  "latencyKeys (redisManager (afterCall c s)) = latencyKeys (redisManager s)
   \<and> priorityLevels (redisManager (afterCall c s)) = priorityLevels (redisManager s)"
  by (cases c)
     (simp_all add: serviceConnect_keeps serviceDisconnect_keeps sendMessage_keeps
        receiveMessages_keeps deleteMessage_keeps changeMessageVisibility_keeps purgeQueue_keeps)

lemma afterCalls_keeps:
  "latencyKeys (redisManager (afterCalls cs s)) = latencyKeys (redisManager s)
   \<and> priorityLevels (redisManager (afterCalls cs s)) = priorityLevels (redisManager s)"
  unfolding afterCalls_def
  by (induction cs arbitrary: s) (simp_all add: afterCall_keeps)

text \<open>
  The keys that the latency query reads are written by \<open>storeProcessingLatency\<close>, and a
  latency stored there does show in the query.
\<close>

lemma storeProcessingLatency_shows:
  "map_sum id getProcessingLatencyByPriority (storeProcessingLatency 0 5 exampleIndex)
     = Inr (Inr [(0, 5), (1, 0), (2, 0)])"
  by (simp add: storeProcessingLatency_def getProcessingLatencyByPriority_def exampleIndex_def
      mathRound_def upt_conv_Cons)

text \<open>
  C10. From a store without latency keys, after every sequence of calls of the public
  operations of the facade, the latency query returns zero for every priority class
  (and throws exactly when the index is not connected): no operation of the facade
  writes a latency key. The query does not read the collector, so the average that the
  collector computes when a message is deleted never shows in it.
\<close>

theorem latency_query_always_zero:
  assumes "latencyKeys (redisManager s) = Map.empty"
  shows "serviceGetProcessingLatencyByPriority (afterCalls cs s) =
           (if connected (redisManager (afterCalls cs s))
            then Inr (map (\<lambda>p. (p, 0)) [0..<priorityLevels (redisManager s)])
            else Inl NotConnected)
         \<and> serviceGetProcessingLatencyByPriority (afterCalls cs s\<lparr>metricsCollector := m\<rparr>)
             = serviceGetProcessingLatencyByPriority (afterCalls cs s)"
  using assms afterCalls_keeps[of cs s]
  by (simp add: serviceGetProcessingLatencyByPriority_def getProcessingLatencyByPriority_def)

theorem latency_query_always_zero_witness:
  "latencyKeys (redisManager mockService) = Map.empty
   \<and> connected (redisManager (afterCalls exampleRun mockService))
   \<and> processingLatencyByPriority (metricsCollector (afterCalls exampleRun mockService)) 0 = Some 500
   \<and> serviceGetProcessingLatencyByPriority (afterCalls exampleRun mockService)
       = Inr [(0, 0), (1, 0), (2, 0)]"
proof -
  have a: "latencyKeys (redisManager mockService) = Map.empty"
    by (simp add: mockService_def serviceConnect_def connect_def newPriorityQueueService_def
        newRedisManager_def Let_def)
  have n: "priorityLevels (redisManager mockService) = 3"
    by (simp add: mockService_def serviceConnect_def connect_def newPriorityQueueService_def
        newRedisManager_def Let_def orElse_def)
  have b: "connected (redisManager (afterCalls exampleRun mockService))"
    by code_simp
  have c: "processingLatencyByPriority (metricsCollector (afterCalls exampleRun mockService)) 0 = Some 500"
    by code_simp
  show ?thesis
    using latency_query_always_zero [OF a, of exampleRun] a b c
    by (simp add: n upt_conv_Cons)
qed

end
